theory Spec2Isabelle
  imports Main
begin

section \<open>JavaScript values\<close>

text \<open>
  The library is TypeScript, so its data are JavaScript values. \<open>jsval\<close> is what a caller
  can hand to the library where the source says \<open>any\<close>, \<open>unknown\<close> or
  \<open>string | Level | number\<close>: undefined, null, a boolean, a number, a string, or a plain
  object (no own \<open>valueOf\<close> or \<open>toString\<close>; not an array), the latter identified by a
  reference. Numbers are integers here: every level code is one, and a fractional number,
  NaN or an infinity is treated by \<open>getValidLevel\<close> like an integer that is no level code.
\<close>

datatype jsval = JUndefined | JNull | JBool bool | JNum int | JStr string | JObj nat

text \<open>
  A slot of TypeScript type \<open>Level\<close> holds a number at run time; the code also stores
  null and undefined there, and \<open>getValidLevel\<close> hands a boolean or an object through
  unchanged. It never yields a string, so \<open>lvl\<close> has no strings. A slot can also come to
  hold a member of \<open>Object.prototype\<close> (a function such as \<open>toString\<close>, or for
  \<open>__proto__\<close> the prototype itself), read from a dictionary under the member's name:
  \<open>LMember\<close> of that name.
\<close>

datatype lvl = LUndefined | LNull | LBool bool | LNum int | LObj nat | LMember string

text \<open>
  An exception that a call can end with. \<open>Unmodelled\<close> is no exception of JavaScript and
  no call ends with it: it is the answer of \<open>rx_parse\<close> below for a regular expression
  that it does not parse.
\<close>

datatype js_error = TypeError | SyntaxError | Unmodelled

text \<open>Truthiness, as \<open>if (v)\<close>, \<open>a || b\<close> and \<open>a && b\<close> test it.\<close>

fun js_truthy :: "jsval \<Rightarrow> bool" where
  "js_truthy JUndefined = False"
| "js_truthy JNull = False"
| "js_truthy (JBool b) = b"
| "js_truthy (JNum n) = (n \<noteq> 0)"
| "js_truthy (JStr s) = (s \<noteq> [])"
| "js_truthy (JObj r) = True"

fun truthy :: "lvl \<Rightarrow> bool" where
  "truthy LUndefined = False"
| "truthy LNull = False"
| "truthy (LBool b) = b"
| "truthy (LNum n) = (n \<noteq> 0)"
| "truthy (LObj r) = True"
| "truthy (LMember m) = True"

text \<open>\<open>a || b\<close>: the first operand when it is truthy, the second otherwise.\<close>

definition js_or :: "lvl \<Rightarrow> lvl \<Rightarrow> lvl" where
  "js_or a b = (if truthy a then a else b)"

text \<open>
  ToNumber on a level slot; \<open>None\<close> is NaN. A relational comparison with NaN is false.
\<close>

fun to_number :: "lvl \<Rightarrow> int option" where
  "to_number LUndefined = None"
| "to_number LNull = Some 0"
| "to_number (LBool b) = Some (if b then 1 else 0)"
| "to_number (LNum n) = Some n"
| "to_number (LObj r) = None"
| "to_number (LMember m) = None"

definition js_le :: "lvl \<Rightarrow> lvl \<Rightarrow> bool" where
  "js_le a b = (case to_number a of None \<Rightarrow> False
     | Some x \<Rightarrow> (case to_number b of None \<Rightarrow> False | Some y \<Rightarrow> x \<le> y))"

subsection \<open>Numbers and strings\<close>

definition is_digit :: "char \<Rightarrow> bool" where
  "is_digit c = (c \<in> set ''0123456789'')"

definition digit_char :: "nat \<Rightarrow> char" where
  "digit_char d = ''0123456789'' ! (d mod 10)"

fun show_nat :: "nat \<Rightarrow> string" where
  "show_nat n = (if n < 10 then [digit_char n] else show_nat (n div 10) @ [digit_char n])"

declare show_nat.simps [simp del]

text \<open>Number to string, for the integers below \<open>10^21\<close> (above, JavaScript writes an exponent).\<close>

definition show_int :: "int \<Rightarrow> string" where
  "show_int i = (if i < 0 then CHR ''-'' # show_nat (nat (- i)) else show_nat (nat i))"

text \<open>ToString, as a template literal \<open>`${v}`\<close> applies it.\<close>

fun js_to_string :: "jsval \<Rightarrow> string" where
  "js_to_string JUndefined = ''undefined''"
| "js_to_string JNull = ''null''"
| "js_to_string (JBool b) = (if b then ''true'' else ''false'')"
| "js_to_string (JNum n) = show_int n"
| "js_to_string (JStr s) = s"
| "js_to_string (JObj r) = ''[object Object]''"

text \<open>
  \<open>isNaN(+s)\<close> for a string \<open>s\<close>: unary plus applies StringToNumber, which yields a number
  exactly when \<open>s\<close>, stripped of white space at both ends, is empty or a
  StrNumericLiteral of ECMAScript: a signed decimal literal (digits, an optional fraction,
  an optional exponent, or \<open>Infinity\<close>) or an unsigned binary, octal or hexadecimal integer
  literal. White space is the ASCII part of WhiteSpace and LineTerminator.
\<close>

definition js_whitespace :: "char \<Rightarrow> bool" where
  "js_whitespace c = (c \<in> {CHR 0x09, CHR 0x0A, CHR 0x0B, CHR 0x0C, CHR 0x0D, CHR 0x20})"

definition js_trim :: "string \<Rightarrow> string" where
  "js_trim s = rev (dropWhile js_whitespace (rev (dropWhile js_whitespace s)))"

definition all_in :: "string \<Rightarrow> string \<Rightarrow> bool" where
  "all_in alphabet ds = (ds \<noteq> [] \<and> list_all (\<lambda>c. c \<in> set alphabet) ds)"

definition exponent_opt :: "string \<Rightarrow> bool" where
  "exponent_opt s = (case s of [] \<Rightarrow> True
     | c # r \<Rightarrow> (c = CHR ''e'' \<or> c = CHR ''E'') \<and>
         all_in ''0123456789''
           (case r of [] \<Rightarrow> [] | g # ds \<Rightarrow> if g = CHR ''+'' \<or> g = CHR ''-'' then ds else r))"

definition unsigned_decimal :: "string \<Rightarrow> bool" where
  "unsigned_decimal s =
     (s = ''Infinity'' \<or>
      (let ip = takeWhile is_digit s; r = dropWhile is_digit s in
       case r of [] \<Rightarrow> ip \<noteq> []
       | c # r' \<Rightarrow>
           if c = CHR ''.''
           then (ip \<noteq> [] \<or> takeWhile is_digit r' \<noteq> []) \<and> exponent_opt (dropWhile is_digit r')
           else ip \<noteq> [] \<and> exponent_opt r))"

definition non_decimal_integer :: "string \<Rightarrow> bool" where
  "non_decimal_integer s = (case s of
       z # x # ds \<Rightarrow> z = CHR ''0'' \<and>
         (if x = CHR ''b'' \<or> x = CHR ''B'' then all_in ''01'' ds
          else if x = CHR ''o'' \<or> x = CHR ''O'' then all_in ''01234567'' ds
          else if x = CHR ''x'' \<or> x = CHR ''X'' then all_in ''0123456789abcdefABCDEF'' ds
          else False)
     | _ \<Rightarrow> False)"

definition str_numeric_literal :: "string \<Rightarrow> bool" where
  "str_numeric_literal s = (non_decimal_integer s \<or>
     (case s of [] \<Rightarrow> False
      | c # r \<Rightarrow> if c = CHR ''+'' \<or> c = CHR ''-'' then unsigned_decimal r else unsigned_decimal s))"

definition isNaN_plus :: "string \<Rightarrow> bool" where
  "isNaN_plus s = (let t = js_trim s in \<not> (t = [] \<or> str_numeric_literal t))"

section \<open>Levels\<close>

text \<open>
  \<open>enum Level { OFF, ERROR, WARN, INFO, DEBUG, TRACE }\<close> compiles to an object with the
  members \<open>OFF = 0\<close> to \<open>TRACE = 5\<close> and the reverse mapping from each number to its name.
\<close>

definition OFF :: int where "OFF = 0"
definition ERROR :: int where "ERROR = 1"
definition WARN :: int where "WARN = 2"
definition INFO :: int where "INFO = 3"
definition DEBUG :: int where "DEBUG = 4"
definition TRACE :: int where "TRACE = 5"

definition Level_names :: "string list" where
  "Level_names = [''OFF'', ''ERROR'', ''WARN'', ''INFO'', ''DEBUG'', ''TRACE'']"

text \<open>\<open>Level[n]\<close> for a number \<open>n\<close>: the name, or undefined (\<open>None\<close>).\<close>

definition Level_name :: "int \<Rightarrow> string option" where
  "Level_name n = (if 0 \<le> n \<and> n < 6 then Some (Level_names ! nat n) else None)"

text \<open>
  \<open>Level[s]\<close> for a string \<open>s\<close> that is no numeric string: the number of the member \<open>s\<close>.
  Any other property gives undefined, or (inherited from \<open>Object.prototype\<close>) a function
  or object, and unary plus turns all of these into NaN (\<open>None\<close>).
\<close>

definition Level_value :: "string \<Rightarrow> int option" where
  "Level_value s = map_of (zip Level_names [0, 1, 2, 3, 4, 5]) s"

text \<open>\<open>Level[v]\<close> for a level slot \<open>v\<close>, written into a message by a template literal.\<close>

fun Level_of :: "lvl \<Rightarrow> string" where
  "Level_of (LNum n) = (case Level_name n of None \<Rightarrow> ''undefined'' | Some s \<Rightarrow> s)"
| "Level_of v = ''undefined''"

text \<open>
  \<open>getValidLevel\<close> (logger.ts): null for null and undefined; for a string, the member of
  that name unless the string is numeric; for a number, itself when it is a member's
  value; any other value is returned as it is.
\<close>

fun getValidLevel :: "jsval \<Rightarrow> lvl" where
  "getValidLevel JNull = LNull"
| "getValidLevel JUndefined = LNull"
| "getValidLevel (JStr level) =
     (if isNaN_plus level
      then (case Level_value level of None \<Rightarrow> LNull | Some stringResult \<Rightarrow> LNum stringResult)
      else LNull)"
| "getValidLevel (JNum level) = (if Level_name level = None then LNull else LNum level)"
| "getValidLevel (JBool b) = LBool b"
| "getValidLevel (JObj r) = LObj r"

section \<open>Logger\<close>

text \<open>
  An appender is an object with the nine methods of the \<open>Appender\<close> interface; the logger
  holds references to appenders and calls them. What a logger does to the outside is the
  sequence of these calls: the appender, the name of the method (\<open>keyof Appender\<close>), and
  the arguments. The appenders' methods are taken to return normally.
\<close>

type_synonym appender = nat

type_synonym call = "appender \<times> string \<times> jsval list"

record Logger =
  name :: string
  rootLevel :: lvl
  level :: lvl
  effectiveLevel :: lvl
  appenders :: "appender list"

text \<open>\<open>this.effectiveLevel = this.level || this.rootLevel\<close>\<close>

definition calculateEffectiveLevel :: "Logger \<Rightarrow> Logger" where
  "calculateEffectiveLevel l = l\<lparr>effectiveLevel := js_or (level l) (rootLevel l)\<rparr>"

text \<open>The setters of \<open>rootLevel\<close> and \<open>level\<close>.\<close>

definition set_rootLevel :: "lvl \<Rightarrow> Logger \<Rightarrow> Logger" where
  "set_rootLevel v l = calculateEffectiveLevel (l\<lparr>rootLevel := v\<rparr>)"

definition set_level :: "lvl \<Rightarrow> Logger \<Rightarrow> Logger" where
  "set_level v l = calculateEffectiveLevel (l\<lparr>level := v\<rparr>)"

text \<open>
  The constructor: the parameter properties \<open>name\<close> and \<open>appenders\<close> are assigned first,
  then the body runs the two setters; the other fields are undefined until then.
\<close>

definition new_Logger :: "string \<Rightarrow> lvl \<Rightarrow> lvl \<Rightarrow> appender list \<Rightarrow> Logger" where
  "new_Logger n r v as =
     set_level v (set_rootLevel r
       \<lparr>name = n, rootLevel = LUndefined, level = LUndefined, effectiveLevel = LUndefined,
        appenders = as\<rparr>)"

text \<open>\<open>level <= this.effectiveLevel\<close>\<close>

definition shouldLog :: "Logger \<Rightarrow> lvl \<Rightarrow> bool" where
  "shouldLog l lv = js_le lv (effectiveLevel l)"

text \<open>\<open>`[${Level[level]}] - ${this.name}: ${msg}`\<close>\<close>

definition formatLogMessage :: "Logger \<Rightarrow> lvl \<Rightarrow> jsval \<Rightarrow> string" where
  "formatLogMessage l lv msg =
     ''['' @ Level_of lv @ ''] - '' @ name l @ '': '' @ js_to_string msg"

text \<open>
  \<open>log\<close>: when the level passes, \<open>this.appenders.forEach\<close> calls the method
  \<open>logFunction\<close> of each appender with the message (formatted unless \<open>format\<close> is false)
  followed by \<open>...(optionalParams || [])\<close>. The result is the sequence of calls made.
\<close>

definition log :: "Logger \<Rightarrow> lvl \<Rightarrow> string \<Rightarrow> jsval \<Rightarrow> jsval list option \<Rightarrow> bool \<Rightarrow> call list" where
  "log l requiredLevel logFunction msg optionalParams format =
     (if shouldLog l requiredLevel
      then map (\<lambda>appender.
             (appender, logFunction,
              (if format then JStr (formatLogMessage l requiredLevel msg) else msg) #
              (case optionalParams of None \<Rightarrow> [] | Some ps \<Rightarrow> ps)))
           (appenders l)
      else [])"

text \<open>The severity methods; a rest parameter is always an array.\<close>

definition error :: "Logger \<Rightarrow> jsval \<Rightarrow> jsval list \<Rightarrow> call list" where
  "error l msg optionalParams = log l (LNum ERROR) ''error'' msg (Some optionalParams) True"

definition warn :: "Logger \<Rightarrow> jsval \<Rightarrow> jsval list \<Rightarrow> call list" where
  "warn l msg optionalParams = log l (LNum WARN) ''warn'' msg (Some optionalParams) True"

definition info :: "Logger \<Rightarrow> jsval \<Rightarrow> jsval list \<Rightarrow> call list" where
  "info l msg optionalParams = log l (LNum INFO) ''info'' msg (Some optionalParams) True"

definition debug :: "Logger \<Rightarrow> jsval \<Rightarrow> jsval list \<Rightarrow> call list" where
  "debug l msg optionalParams = log l (LNum DEBUG) ''debug'' msg (Some optionalParams) True"

definition trace :: "Logger \<Rightarrow> jsval \<Rightarrow> jsval list \<Rightarrow> call list" where
  "trace l msg optionalParams = log l (LNum TRACE) ''trace'' msg (Some optionalParams) True"

text \<open>\<open>dir\<close> and \<open>dirxml\<close> pass the object on as it is; the level defaults to DEBUG.\<close>

definition dir :: "Logger \<Rightarrow> jsval \<Rightarrow> lvl \<Rightarrow> call list" where
  "dir l obj lv = log l lv ''dir'' obj (Some []) False"

definition dirxml :: "Logger \<Rightarrow> jsval \<Rightarrow> lvl \<Rightarrow> call list" where
  "dirxml l obj lv = log l lv ''dirxml'' obj (Some []) False"

section \<open>Objects used as dictionaries\<close>

text \<open>
  \<open>storedLevels\<close>, the factory's \<open>appenders\<close> and the \<open>levels\<close> of a stored configuration
  are plain objects used as dictionaries. Such an object is the list of its own
  properties in the order \<open>Object.keys\<close> and \<open>Object.values\<close> enumerate them: the keys that
  are array indices (canonical numerals below \<open>2^32 - 1\<close>) in ascending order, then the
  other keys in the order of their creation. Such an object inherits from
  \<open>Object.prototype\<close>: reading \<open>o[k]\<close> finds the own property \<open>k\<close> or else the
  member \<open>k\<close> of the prototype (\<open>get_property\<close>), while \<open>Object.keys\<close> and
  \<open>Object.values\<close> see the own properties only.
\<close>

type_synonym 'v jsobj = "(string \<times> 'v) list"

definition nat_of_digits :: "string \<Rightarrow> nat" where
  "nat_of_digits s = fold (\<lambda>c n. 10 * n + (of_char c - 48)) s 0"

definition array_index :: "string \<Rightarrow> nat option" where
  "array_index s =
     (if s \<noteq> [] \<and> list_all is_digit s \<and> (s = ''0'' \<or> hd s \<noteq> CHR ''0'') \<and>
         nat_of_digits s < 4294967295
      then Some (nat_of_digits s) else None)"

definition key_before :: "string \<Rightarrow> string \<Rightarrow> bool" where
  "key_before k k' = (case array_index k of None \<Rightarrow> False
     | Some n \<Rightarrow> (case array_index k' of None \<Rightarrow> True | Some n' \<Rightarrow> n < n'))"

fun obj_insert :: "string \<Rightarrow> 'v \<Rightarrow> 'v jsobj \<Rightarrow> 'v jsobj" where
  "obj_insert k v [] = [(k, v)]"
| "obj_insert k v ((k', v') # kvs) =
     (if key_before k k' then (k, v) # (k', v') # kvs else (k', v') # obj_insert k v kvs)"

text \<open>
  \<open>o[k] = v\<close> on an object built by assignments: an existing property keeps its place,
  a new one is created. The key \<open>__proto__\<close> is the exception: the assignment reaches the
  accessor that the object inherits and creates no property. (Given an object, the accessor
  makes it the prototype of \<open>o\<close>; the own properties, all that is recorded here, are the
  same.)
\<close>

definition obj_set :: "string \<Rightarrow> 'v \<Rightarrow> 'v jsobj \<Rightarrow> 'v jsobj" where
  "obj_set k v ob =
     (if k = ''__proto__'' then ob
      else if k \<in> fst ` set ob
      then map (\<lambda>(k', v'). if k' = k then (k', v) else (k', v')) ob
      else obj_insert k v ob)"

text \<open>The own property \<open>k\<close> of \<open>o\<close>; \<open>None\<close> when there is none.\<close>

definition obj_get :: "'v jsobj \<Rightarrow> string \<Rightarrow> 'v option" where
  "obj_get ob k = map_of ob k"

text \<open>The names of the members of \<open>Object.prototype\<close>.\<close>

definition Object_prototype_members :: "string list" where
  "Object_prototype_members =
     [''constructor'', ''__defineGetter__'', ''__defineSetter__'', ''hasOwnProperty'',
      ''__lookupGetter__'', ''__lookupSetter__'', ''isPrototypeOf'', ''propertyIsEnumerable'',
      ''toString'', ''valueOf'', ''__proto__'', ''toLocaleString'']"

text \<open>
  \<open>o[k]\<close> read from a dictionary of levels: the own property, or else the inherited
  member of that name, or else undefined (\<open>None\<close>).
\<close>

definition get_property :: "lvl jsobj \<Rightarrow> string \<Rightarrow> lvl option" where
  "get_property ob k = (case obj_get ob k of
       Some v \<Rightarrow> Some v
     | None \<Rightarrow> if k \<in> set Object_prototype_members then Some (LMember k) else None)"

definition obj_keys :: "'v jsobj \<Rightarrow> string list" where
  "obj_keys ob = map fst ob"

definition obj_values :: "'v jsobj \<Rightarrow> 'v list" where
  "obj_values ob = map snd ob"

text \<open>\<open>xs.join(sep)\<close> on an array of strings.\<close>

fun join :: "string \<Rightarrow> string list \<Rightarrow> string" where
  "join sep [] = []"
| "join sep [x] = x"
| "join sep (x # y # ys) = x @ sep @ join sep (y # ys)"

section \<open>Regular expressions of selectors\<close>

text \<open>\<open>arg.replace('*', '.*')\<close>: a string pattern replaces its first occurrence only.\<close>

fun replace_star :: "string \<Rightarrow> string" where
  "replace_star [] = []"
| "replace_star (c # cs) = (if c = CHR ''*'' then ''.*'' @ cs else c # replace_star cs)"

text \<open>
  \<open>new RegExp('^' + arg + '$')\<close> for a body \<open>arg\<close> made of ordinary characters, \<open>.\<close> and
  \<open>*\<close>: a sequence of atoms (a character, or \<open>.\<close> for any character but a line
  terminator), each one optionally followed by the quantifier \<open>*\<close>. A \<open>*\<close> with no atom
  before it, at the start or after another \<open>*\<close>, is the SyntaxError "nothing to repeat".
  A body with another syntax character of regular expressions is not parsed here:
  \<open>rx_parse\<close> answers \<open>Unmodelled\<close>, and what \<open>new RegExp\<close> makes of such a body is
  left open (\<open>regexp_beyond\<close>).
\<close>

datatype rx_atom = AnyChar | Lit char

datatype rx_item = Once rx_atom | Star rx_atom

definition rx_syntax_char :: "char \<Rightarrow> bool" where
  "rx_syntax_char c = (c \<in> set ''^$+?()[]{}|'' \<or> c = CHR 0x5C)"

fun rx_parse :: "string \<Rightarrow> js_error + rx_item list" where
  "rx_parse [] = Inr []"
| "rx_parse (c # cs) =
     (if c = CHR ''*'' then Inl SyntaxError
      else if rx_syntax_char c then Inl Unmodelled
      else (case cs of
          [] \<Rightarrow> Inr [Once (if c = CHR ''.'' then AnyChar else Lit c)]
        | d # ds \<Rightarrow>
            if d = CHR ''*''
            then (case rx_parse ds of Inl e \<Rightarrow> Inl e
                  | Inr r \<Rightarrow> Inr (Star (if c = CHR ''.'' then AnyChar else Lit c) # r))
            else (case rx_parse cs of Inl e \<Rightarrow> Inl e
                  | Inr r \<Rightarrow> Inr (Once (if c = CHR ''.'' then AnyChar else Lit c) # r))))"

fun rx_atom_ok :: "rx_atom \<Rightarrow> char \<Rightarrow> bool" where
  "rx_atom_ok AnyChar c = (c \<noteq> CHR 0x0A \<and> c \<noteq> CHR 0x0D)"
| "rx_atom_ok (Lit a) c = (c = a)"

text \<open>
  \<open>new RegExp('^' + arg + '$')\<close> for a body that \<open>rx_parse\<close> does not parse: the
  SyntaxError of the engine (\<open>None\<close>), or the expression, given by what its \<open>test\<close>
  answers for each string. Which of the two, and which answers, is a function of the body
  that is not specified here.
\<close>

definition regexp_beyond :: "string \<Rightarrow> (string \<Rightarrow> bool) option" where
  "regexp_beyond = undefined"

text \<open>\<open>regexp.test(s)\<close> for the anchored expression: the items match all of \<open>s\<close>.\<close>

fun rx_match :: "rx_item list \<Rightarrow> string \<Rightarrow> bool" where
  "rx_match [] s = (s = [])"
| "rx_match (Once a # r) [] = False"
| "rx_match (Once a # r) (c # cs) = (rx_atom_ok a c \<and> rx_match r cs)"
| "rx_match (Star a # r) [] = rx_match r []"
| "rx_match (Star a # r) (c # cs) =
     (rx_match r (c # cs) \<or> (rx_atom_ok a c \<and> rx_match (Star a # r) cs))"

section \<open>LoggerFactory\<close>

text \<open>
  \<open>LoggerFactoryConfig\<close>: the argument of \<open>init\<close>, of which the factory reads \<open>rootLevel\<close>,
  and the shape of the stored record, of which it reads \<open>levels\<close> and \<open>appenders\<close>. A
  member that is missing or null is \<open>None\<close>; so is a member of another type than the
  declared one (\<open>levels\<close> that is no object, \<open>appenders\<close> that is no array), which
  \<open>restoreConfig\<close> treats as it treats a missing one: the restore is discarded.
\<close>

record LoggerFactoryConfig =
  cfg_rootLevel :: lvl
  cfg_levels :: "jsval jsobj option"
  cfg_appenders :: "string list option"

text \<open>
  What the storage holds under the key \<open>loggerfactory\<close>: nothing (\<open>getItem\<close> gives null;
  an empty string is as falsy and counts as nothing), a text on which \<open>JSON.parse\<close>
  throws, or a text that parses. \<open>JSON.stringify\<close> followed by \<open>JSON.parse\<close> gives the
  record back, so the text is represented by the record. A parsed value that is no object
  has neither member.
\<close>

datatype item = Unparsable | Parsed LoggerFactoryConfig

type_synonym Storage = "item option"

text \<open>An entry of \<open>registeredAppenders\<close>: an appender or a function producing one.\<close>

datatype entry = Instance appender | Producer "unit \<Rightarrow> appender"

text \<open>
  The factory. \<open>appenders\<close> has no initializer, so it is undefined (\<open>None\<close>) until it is
  assigned; so is \<open>storage\<close>. The field \<open>appenders\<close> is \<open>factoryAppenders\<close> here, the
  logger having a field of the same name.
\<close>

record LoggerFactory =
  storedLevels :: "lvl jsobj"
  cachedLoggers :: "(string \<times> Logger) list"
  theRootLevel :: lvl
  factoryAppenders :: "appender jsobj option"
  storage :: "Storage option"
  registeredAppenders :: "string \<Rightarrow> entry option"

definition DEFAULT_ROOT_LEVEL :: int where
  "DEFAULT_ROOT_LEVEL = INFO"

definition initLevels :: "LoggerFactory \<Rightarrow> LoggerFactory" where
  "initLevels f =
     f\<lparr>storedLevels := [(''__root'', LNum DEFAULT_ROOT_LEVEL)],
       theRootLevel := getValidLevel (JNum DEFAULT_ROOT_LEVEL)\<rparr>"

text \<open>The private constructor: the field initializers, then \<open>initLevels\<close>.\<close>

definition new_LoggerFactory :: LoggerFactory where
  "new_LoggerFactory =
     initLevels
       \<lparr>storedLevels = [(''__root'', LNum DEFAULT_ROOT_LEVEL)], cachedLoggers = [],
        theRootLevel = LUndefined, factoryAppenders = None, storage = None,
        registeredAppenders = (\<lambda>k. None)\<rparr>"

definition registerAppender :: "LoggerFactory \<Rightarrow> string \<Rightarrow> entry \<Rightarrow> LoggerFactory" where
  "registerAppender f nm e = f\<lparr>registeredAppenders := (registeredAppenders f)(nm \<mapsto> e)\<rparr>"

text \<open>\<open>getValidAppender\<close>; \<open>None\<close> is undefined.\<close>

definition getValidAppender :: "LoggerFactory \<Rightarrow> string \<Rightarrow> appender option" where
  "getValidAppender f nm = (case registeredAppenders f nm of
       None \<Rightarrow> None
     | Some (Instance a) \<Rightarrow> Some a
     | Some (Producer p) \<Rightarrow> Some (p ()))"

text \<open>
  \<open>storeConfig\<close>: with a storage, writes the names of the stored levels and the keys of
  the appenders. \<open>Level[v]\<close> is undefined for a value that is no level, and
  \<open>JSON.stringify\<close> leaves such a member out. \<open>Object.keys(this.appenders)\<close> throws a
  TypeError when \<open>appenders\<close> is undefined.
\<close>

definition stringify_levels :: "lvl jsobj \<Rightarrow> jsval jsobj" where
  "stringify_levels sl =
     List.map_filter (\<lambda>(nm, v). case v of
         LNum n \<Rightarrow> (case Level_name n of None \<Rightarrow> None | Some s \<Rightarrow> Some (nm, JStr s))
       | _ \<Rightarrow> None) sl"

definition config_record :: "lvl jsobj \<Rightarrow> appender jsobj \<Rightarrow> LoggerFactoryConfig" where
  "config_record sl as =
     \<lparr>cfg_rootLevel = LUndefined, cfg_levels = Some (stringify_levels sl),
      cfg_appenders = Some (obj_keys as)\<rparr>"

definition storeConfig :: "LoggerFactory \<Rightarrow> js_error + LoggerFactory" where
  "storeConfig f = (case storage f of
       None \<Rightarrow> Inr f
     | Some st \<Rightarrow> (case factoryAppenders f of
           None \<Rightarrow> Inl TypeError
         | Some as \<Rightarrow>
             Inr (f\<lparr>storage := Some (Some (Parsed (config_record (storedLevels f) as)))\<rparr>)))"

text \<open>
  The three reductions of \<open>restoreConfig\<close>. Each starts from undefined (\<open>None\<close>) and
  creates the object at the first entry it keeps.
\<close>

definition restore_levels :: "jsval jsobj \<Rightarrow> lvl jsobj option" where
  "restore_levels ls =
     fold (\<lambda>nm memo.
            (let lv = getValidLevel (case obj_get ls nm of None \<Rightarrow> JUndefined | Some v \<Rightarrow> v) in
             if truthy lv
             then Some (obj_set nm lv (case memo of None \<Rightarrow> [] | Some m \<Rightarrow> m))
             else memo))
          (obj_keys ls) None"

definition restore_rootLevel :: "LoggerFactoryConfig \<Rightarrow> lvl" where
  "restore_rootLevel parsed = (case cfg_levels parsed of
       None \<Rightarrow> LUndefined
     | Some ls \<Rightarrow> (case obj_get ls ''__root'' of
           None \<Rightarrow> LUndefined
         | Some v \<Rightarrow> if js_truthy v then getValidLevel v else LUndefined))"

definition resolve_appenders :: "LoggerFactory \<Rightarrow> string list \<Rightarrow> appender jsobj option" where
  "resolve_appenders f nms =
     fold (\<lambda>nm memo. case getValidAppender f nm of
              None \<Rightarrow> memo
            | Some a \<Rightarrow> Some (obj_set nm a (case memo of None \<Rightarrow> [] | Some m \<Rightarrow> m)))
          nms None"

text \<open>The last loop of \<open>restoreConfig\<close>: every cached logger is brought up to date.\<close>

definition refresh :: "LoggerFactory \<Rightarrow> string \<times> Logger \<Rightarrow> string \<times> Logger" where
  "refresh f = (\<lambda>(nm, logger). (nm,
     (set_rootLevel (theRootLevel f)
       (set_level (case get_property (storedLevels f) nm of
                     None \<Rightarrow> LUndefined
                   | Some v \<Rightarrow> if truthy v then v else LUndefined) logger))
     \<lparr>appenders := (case factoryAppenders f of None \<Rightarrow> [] | Some as \<Rightarrow> obj_values as)\<rparr>))"

text \<open>
  \<open>restoreConfig\<close>: with an item in the storage, the levels, the root level and the
  appenders are read from it inside a \<open>try\<close> (an exception leaves all three undefined),
  and taken over when \<open>levels && rootLevel && appenders\<close>; otherwise \<open>initLevels\<close> runs.
  Then the cached loggers are refreshed.
\<close>

definition restoreConfig :: "LoggerFactory \<Rightarrow> LoggerFactory" where
  "restoreConfig f =
     (let f' = (case storage f of
            None \<Rightarrow> f
          | Some None \<Rightarrow> f
          | Some (Some Unparsable) \<Rightarrow> initLevels f
          | Some (Some (Parsed parsed)) \<Rightarrow>
              (case (case cfg_levels parsed of None \<Rightarrow> None | Some ls \<Rightarrow> restore_levels ls) of
                 None \<Rightarrow> initLevels f
               | Some ls \<Rightarrow>
                   if truthy (restore_rootLevel parsed)
                   then (case (case cfg_appenders parsed of None \<Rightarrow> None
                               | Some nms \<Rightarrow> resolve_appenders f nms) of
                           None \<Rightarrow> initLevels f
                         | Some as \<Rightarrow>
                             f\<lparr>storedLevels := ls, theRootLevel := restore_rootLevel parsed,
                               factoryAppenders := Some as\<rparr>)
                   else initLevels f))
      in f'\<lparr>cachedLoggers := map (refresh f') (cachedLoggers f')\<rparr>)"

text \<open>
  \<open>getLogger\<close>: an identifier that is no string or is empty becomes \<open>default\<close>; a cached
  logger is returned as it is; otherwise a logger is built from the root level, the stored
  level of that name (when truthy, null otherwise) and the values of the appenders, and
  added at the end of the cache.
\<close>

definition getLogger :: "LoggerFactory \<Rightarrow> jsval \<Rightarrow> Logger \<times> LoggerFactory" where
  "getLogger f identifier =
     (let theName = (case identifier of JStr s \<Rightarrow> if s = [] then ''default'' else s
                     | _ \<Rightarrow> ''default'')
      in case map_of (cachedLoggers f) theName of
           Some logger \<Rightarrow> (logger, f)
         | None \<Rightarrow>
             (let logger = new_Logger theName (theRootLevel f)
                    (case get_property (storedLevels f) theName of
                       None \<Rightarrow> LNull
                     | Some v \<Rightarrow> if truthy v then v else LNull)
                    (case factoryAppenders f of None \<Rightarrow> [] | Some as \<Rightarrow> obj_values as)
              in (logger, f\<lparr>cachedLoggers := cachedLoggers f @ [(theName, logger)]\<rparr>)))"

text \<open>
  \<open>clear\<close>: \<open>initLevels\<close>, then every cached logger gets the level null and the new root
  level, then \<open>storeConfig\<close>, then \<open>this.appenders = {}\<close>; the message is returned.
\<close>

definition clear :: "LoggerFactory \<Rightarrow> js_error + string \<times> LoggerFactory" where
  "clear f =
     (let f1 = initLevels f;
          f2 = f1\<lparr>cachedLoggers :=
                 map (\<lambda>(nm, logger). (nm, set_rootLevel (theRootLevel f1) (set_level LNull logger)))
                   (cachedLoggers f1)\<rparr>
      in case storeConfig f2 of
           Inl e \<Rightarrow> Inl e
         | Inr f3 \<Rightarrow>
             Inr (''Cleared log levels and appenders. New root level is '' @ [CHR 0x27] @
                    Level_of (theRootLevel f3) @ [CHR 0x27] @ ''.'',
                  f3\<lparr>factoryAppenders := Some []\<rparr>))"

text \<open>
  The loop of \<open>setLogLevel\<close> over the cache, with its running \<open>index\<close>: a logger that is
  hit gets the level, the level is stored under its name, and the name is pushed to
  \<open>matches\<close>. The result is the cache, the stored levels and the matches after the loop.
\<close>

fun sweep :: "(nat \<Rightarrow> string \<Rightarrow> bool) \<Rightarrow> lvl \<Rightarrow> nat \<Rightarrow> (string \<times> Logger) list \<Rightarrow> lvl jsobj \<Rightarrow>
    (string \<times> Logger) list \<times> lvl jsobj \<times> string list" where
  "sweep hit theLevel index [] sl = ([], sl, [])"
| "sweep hit theLevel index ((loggerName, logger) # rest) sl =
     (if hit index loggerName
      then (case sweep hit theLevel (Suc index) rest (obj_set loggerName theLevel sl) of
              (ls, sl', matches) \<Rightarrow>
                ((loggerName, set_level theLevel logger) # ls, sl', loggerName # matches))
      else (case sweep hit theLevel (Suc index) rest sl of
              (ls, sl', matches) \<Rightarrow> ((loggerName, logger) # ls, sl', matches)))"

text \<open>
  \<open>setLogLevel\<close>. An invalid level (\<open>theLevel == null\<close>) returns the empty string at once.
  A string selector is matched as a regular expression against the names (a SyntaxError
  of \<open>new RegExp\<close> ends the call before the loop), a number against the index (the
  regular expression built from a number is not used and its construction cannot fail);
  any other selector is rejected. After the loop comes
  \<open>storeConfig\<close>, then the message, whose wording depends on the mode.
\<close>

definition setLogLevel_message :: "bool \<Rightarrow> string \<Rightarrow> lvl \<Rightarrow> string list \<Rightarrow> string" where
  "setLogLevel_message nameMode arg theLevel matches =
     (if matches \<noteq> []
      then (if nameMode
            then ''Successfully set '' @ show_nat (length matches) @
                 '' logger(s) whose name matches /'' @ arg @ ''/ to level '' @
                 Level_of theLevel @ '': '' @ join '','' matches
            else ''Successfully set logger with index '' @ arg @ '' to level '' @
                 Level_of theLevel @ '': '' @ join '','' matches)
      else (if nameMode
            then ''No loggers matched /'' @ arg @
                 ''/. You might want to use a wildcard? Type '' @ [CHR 0x27] @ ''lf.help'' @
                 [CHR 0x27] @ '' for help.''
            else ''Found no logger with index '' @ arg @ ''. Type '' @ [CHR 0x27] @ ''lf.ll'' @
                 [CHR 0x27] @ '' to view the indices.''))"

definition setLogLevel_run ::
    "LoggerFactory \<Rightarrow> bool \<Rightarrow> string \<Rightarrow> (nat \<Rightarrow> string \<Rightarrow> bool) \<Rightarrow> lvl \<Rightarrow> js_error + string \<times> LoggerFactory" where
  "setLogLevel_run f nameMode arg hit theLevel =
     (case sweep hit theLevel 0 (cachedLoggers f) (storedLevels f) of
        (ls, sl, matches) \<Rightarrow>
          (case storeConfig (f\<lparr>cachedLoggers := ls, storedLevels := sl\<rparr>) of
             Inl e \<Rightarrow> Inl e
           | Inr f' \<Rightarrow> Inr (setLogLevel_message nameMode arg theLevel matches, f')))"

definition setLogLevel :: "LoggerFactory \<Rightarrow> jsval \<Rightarrow> jsval \<Rightarrow> js_error + string \<times> LoggerFactory" where
  "setLogLevel f arg lv =
     (let theLevel = getValidLevel lv in
      if theLevel = LNull \<or> theLevel = LUndefined then Inr ([], f)
      else (case arg of
          JStr s \<Rightarrow>
            (case rx_parse (replace_star s) of
               Inr regexp \<Rightarrow>
                 setLogLevel_run f True (replace_star s)
                   (\<lambda>index loggerName. rx_match regexp loggerName) theLevel
             | Inl Unmodelled \<Rightarrow>
                 (case regexp_beyond (replace_star s) of
                    None \<Rightarrow> Inl SyntaxError
                  | Some test \<Rightarrow>
                      setLogLevel_run f True (replace_star s)
                        (\<lambda>index loggerName. test loggerName) theLevel)
             | Inl e \<Rightarrow> Inl e)
        | JNum n \<Rightarrow>
            setLogLevel_run f False (show_int n) (\<lambda>index loggerName. n = int index) theLevel
        | _ \<Rightarrow>
            Inr (''Unsupported argument: '' @ [CHR 0x27] @ js_to_string arg @ [CHR 0x27] @
                 ''. Must be number or string.'', f)))"

text \<open>
  \<open>setLogAppenders\<close>: the keys that resolve form the new appenders; when there are any,
  they replace the factory's, every cached logger gets their values, and the
  configuration is stored.
\<close>

definition setLogAppenders :: "LoggerFactory \<Rightarrow> string list \<Rightarrow> js_error + string \<times> LoggerFactory" where
  "setLogAppenders f appenderTypes =
     (case resolve_appenders f appenderTypes of
        Some as \<Rightarrow>
          (case storeConfig
                  (f\<lparr>factoryAppenders := Some as,
                     cachedLoggers :=
                       map (\<lambda>(nm, logger). (nm, logger\<lparr>appenders := obj_values as\<rparr>))
                         (cachedLoggers f)\<rparr>) of
             Inl e \<Rightarrow> Inl e
           | Inr f' \<Rightarrow>
               Inr (''Appenders '' @ [CHR 0x22] @ join '', '' (obj_keys as) @ [CHR 0x22] @
                    '' successfully set!'', f'))
      | None \<Rightarrow>
          Inr (''No valid Appenders given: '' @ [CHR 0x22] @ join '', '' appenderTypes @
               [CHR 0x22] @ ''!'', f))"

text \<open>The setter of the factory's \<open>level\<close>, the root level.\<close>

definition set_factory_level :: "LoggerFactory \<Rightarrow> jsval \<Rightarrow> js_error + LoggerFactory" where
  "set_factory_level f lv =
     (let theLevel = getValidLevel lv in
      if theLevel = LNull then Inr f
      else storeConfig
             (f\<lparr>theRootLevel := theLevel,
                cachedLoggers :=
                  map (\<lambda>(nm, logger). (nm, set_rootLevel theLevel logger)) (cachedLoggers f),
                storedLevels := obj_set ''__root'' theLevel (storedLevels f)\<rparr>))"

text \<open>
  \<open>init\<close>, without its messages and the binding to the window: the console appender is
  registered and set, the storage is kept, a truthy \<open>config.rootLevel\<close> becomes the root
  level, and the configuration is restored. Here the storage passed is an object that
  the factory does not hold yet, as at the first \<open>init\<close>: what \<open>setLogAppenders\<close> writes
  goes to the storage held before, if any, and the new storage comes with its own content.
\<close>

definition init :: "LoggerFactory \<Rightarrow> appender \<Rightarrow> Storage option \<Rightarrow> LoggerFactoryConfig \<Rightarrow>
    js_error + LoggerFactory" where
  "init f consoleAppender st config =
     (case setLogAppenders (registerAppender f ''console'' (Instance consoleAppender)) [''console''] of
        Inl e \<Rightarrow> Inl e
      | Inr (msg, f1) \<Rightarrow>
          (let f2 = f1\<lparr>storage := st\<rparr>;
               f3 = (if truthy (cfg_rootLevel config)
                     then f2\<lparr>theRootLevel := cfg_rootLevel config\<rparr> else f2)
           in Inr (restoreConfig f3)))"

text \<open>
  \<open>init\<close> called again with the storage object that the factory holds already: what
  \<open>setLogAppenders\<close> writes is in that storage when the configuration is restored.
\<close>

definition init_again :: "LoggerFactory \<Rightarrow> appender \<Rightarrow> LoggerFactoryConfig \<Rightarrow>
    js_error + LoggerFactory" where
  "init_again f consoleAppender config =
     (case setLogAppenders (registerAppender f ''console'' (Instance consoleAppender)) [''console''] of
        Inl e \<Rightarrow> Inl e
      | Inr (msg, f1) \<Rightarrow>
          Inr (restoreConfig
                 (if truthy (cfg_rootLevel config)
                  then f1\<lparr>theRootLevel := cfg_rootLevel config\<rparr> else f1)))"

text \<open>
  The persisted record is in step with the factory: there is no storage, or the storage
  holds the record that \<open>storeConfig\<close> writes for the present stored levels and appenders.
\<close>

definition in_step :: "LoggerFactory \<Rightarrow> bool" where
  "in_step f = (case storage f of
       None \<Rightarrow> True
     | Some st \<Rightarrow> (case factoryAppenders f of
           None \<Rightarrow> False
         | Some as \<Rightarrow> st = Some (Parsed (config_record (storedLevels f) as))))"

text \<open>
  The cached loggers are current: each has the factory's root level and, as its
  appenders, the values of the factory's appenders.
\<close>

definition loggers_current :: "LoggerFactory \<Rightarrow> bool" where
  "loggers_current f =
     list_all (\<lambda>(nm, l). rootLevel l = theRootLevel f \<and>
         appenders l = (case factoryAppenders f of None \<Rightarrow> [] | Some as \<Rightarrow> obj_values as))
       (cachedLoggers f)"






section \<open>LocalStorageAppender\<close>

text \<open>
  An entry of the log is an array: the line, then the optional values. What the storage
  holds under the key \<open>log\<close> is nothing, a text on which \<open>JSON.parse\<close> throws, or a text
  that parses, to an array of entries or to another value (null, a boolean, a number, a
  string, an object).
\<close>

type_synonym log_entry = "jsval list"

datatype json = Arr "log_entry list" | Other jsval

datatype blob = NoBlob | BadBlob | Blob json

definition json_truthy :: "json \<Rightarrow> bool" where
  "json_truthy j = (case j of Arr es \<Rightarrow> True | Other v \<Rightarrow> js_truthy v)"

text \<open>
  The appender: the storage it was constructed with (\<open>None\<close> when that is undefined or
  null) and the \<open>logCache\<close>, undefined (\<open>None\<close>) until the first call fills it.
\<close>

record LocalStorageAppender =
  localStorage :: "blob option"
  logCache :: "json option"

definition LOG_ENTRY_COUNT :: nat where
  "LOG_ENTRY_COUNT = 200"

text \<open>
  \<open>JSON.parse(this.localStorage.getItem(LOCAL_STORAGE_KEY))\<close>: a TypeError without a
  storage; \<open>getItem\<close> gives null for a missing key, and \<open>JSON.parse(null)\<close> is null; a
  SyntaxError on a text that does not parse.
\<close>

definition parse_log :: "blob option \<Rightarrow> js_error + json" where
  "parse_log st = (case st of
       None \<Rightarrow> Inl TypeError
     | Some NoBlob \<Rightarrow> Inr (Other JNull)
     | Some BadBlob \<Rightarrow> Inl SyntaxError
     | Some (Blob j) \<Rightarrow> Inr j)"

text \<open>\<open>getLastLog\<close>: \<open>try { return JSON.parse(...) } catch (e) { return [] }\<close>\<close>

definition getLastLog :: "LocalStorageAppender \<Rightarrow> js_error + json" where
  "getLastLog a = (case parse_log (localStorage a) of Inl e \<Rightarrow> Inr (Arr []) | Inr j \<Rightarrow> Inr j)"

text \<open>What \<open>JSON.stringify\<close> and \<open>JSON.parse\<close> give back for an array: undefined becomes null.\<close>

fun jsonify :: "jsval \<Rightarrow> jsval" where
  "jsonify JUndefined = JNull"
| "jsonify v = v"

text \<open>
  \<open>logAndRotate\<close>. Without a storage it only reports an error on the console. Otherwise
  a falsy cache is filled from the storage (an exception of the parse is swallowed, and
  a falsy result becomes the empty array); a cache at the capacity loses its first entry;
  the new entry, the time and the object in one string followed by the optional values,
  is pushed; the cache is written back. A cache that is no array has no \<open>push\<close>: a
  TypeError, which nothing catches.
\<close>

definition logAndRotate ::
    "LocalStorageAppender \<Rightarrow> string \<Rightarrow> jsval \<Rightarrow> jsval list option \<Rightarrow> js_error + LocalStorageAppender" where
  "logAndRotate a now obj optionalObj = (case localStorage a of
       None \<Rightarrow> Inr a
     | Some st \<Rightarrow>
         (let cache =
                (if (case logCache a of None \<Rightarrow> True | Some j \<Rightarrow> \<not> json_truthy j)
                 then (let parsed = (case parse_log (localStorage a) of
                                       Inl e \<Rightarrow> logCache a | Inr j \<Rightarrow> Some j)
                       in case parsed of None \<Rightarrow> Arr []
                          | Some j \<Rightarrow> if json_truthy j then j else Arr [])
                 else (case logCache a of None \<Rightarrow> Arr [] | Some j \<Rightarrow> j))
          in case cache of
               Other v \<Rightarrow> Inl TypeError
             | Arr es \<Rightarrow>
                 (let rotated = (if length es \<ge> LOG_ENTRY_COUNT then tl es else es);
                      pushed = rotated @
                        [JStr (now @ '' '' @ js_to_string obj) #
                         (case optionalObj of None \<Rightarrow> [] | Some os \<Rightarrow> os)]
                  in Inr (a\<lparr>logCache := Some (Arr pushed),
                            localStorage := Some (Blob (Arr (map (map jsonify) pushed)))\<rparr>))))"

text \<open>
  The logging methods of the appender, with the time of the call: the five severity
  methods pass the message and the optional values, \<open>dir\<close> and \<open>dirxml\<close> the object alone;
  \<open>group\<close> and \<open>groupEnd\<close> do nothing.
\<close>

datatype ls_call =
    Call_error jsval "jsval list"
  | Call_warn jsval "jsval list"
  | Call_info jsval "jsval list"
  | Call_debug jsval "jsval list"
  | Call_trace jsval "jsval list"
  | Call_dir jsval
  | Call_dirxml jsval

fun ls_invoke :: "LocalStorageAppender \<Rightarrow> string \<times> ls_call \<Rightarrow> js_error + LocalStorageAppender" where
  "ls_invoke a (now, Call_error msg optionalParams) = logAndRotate a now msg (Some optionalParams)"
| "ls_invoke a (now, Call_warn msg optionalParams) = logAndRotate a now msg (Some optionalParams)"
| "ls_invoke a (now, Call_info msg optionalParams) = logAndRotate a now msg (Some optionalParams)"
| "ls_invoke a (now, Call_debug msg optionalParams) = logAndRotate a now msg (Some optionalParams)"
| "ls_invoke a (now, Call_trace msg optionalParams) = logAndRotate a now msg (Some optionalParams)"
| "ls_invoke a (now, Call_dir obj) = logAndRotate a now obj None"
| "ls_invoke a (now, Call_dirxml obj) = logAndRotate a now obj None"

text \<open>A sequence of logging calls, one after the other; an exception ends it.\<close>

fun ls_run :: "LocalStorageAppender \<Rightarrow> (string \<times> ls_call) list \<Rightarrow> js_error + LocalStorageAppender" where
  "ls_run a [] = Inr a"
| "ls_run a (c # cs) = (case ls_invoke a c of Inl e \<Rightarrow> Inl e | Inr a' \<Rightarrow> ls_run a' cs)"

text \<open>The entry a logging call adds to the cache.\<close>

fun entry_of :: "string \<times> ls_call \<Rightarrow> log_entry" where
  "entry_of (now, Call_error msg ps) = JStr (now @ '' '' @ js_to_string msg) # ps"
| "entry_of (now, Call_warn msg ps) = JStr (now @ '' '' @ js_to_string msg) # ps"
| "entry_of (now, Call_info msg ps) = JStr (now @ '' '' @ js_to_string msg) # ps"
| "entry_of (now, Call_debug msg ps) = JStr (now @ '' '' @ js_to_string msg) # ps"
| "entry_of (now, Call_trace msg ps) = JStr (now @ '' '' @ js_to_string msg) # ps"
| "entry_of (now, Call_dir obj) = [JStr (now @ '' '' @ js_to_string obj)]"
| "entry_of (now, Call_dirxml obj) = [JStr (now @ '' '' @ js_to_string obj)]"

text \<open>The newest \<open>LOG_ENTRY_COUNT\<close> elements of a list, in the order of the list.\<close>

definition newest :: "'a list \<Rightarrow> 'a list" where
  "newest xs = drop (length xs - LOG_ENTRY_COUNT) xs"

section \<open>Level normalization\<close>

lemmas Level_defs = OFF_def ERROR_def WARN_def INFO_def DEBUG_def TRACE_def

lemma getValidLevel_names:
  "getValidLevel (JStr ''OFF'') = LNum OFF \<and> getValidLevel (JStr ''ERROR'') = LNum ERROR \<and>
   getValidLevel (JStr ''WARN'') = LNum WARN \<and> getValidLevel (JStr ''INFO'') = LNum INFO \<and>
   getValidLevel (JStr ''DEBUG'') = LNum DEBUG \<and> getValidLevel (JStr ''TRACE'') = LNum TRACE"
  by code_simp

lemma getValidLevel_codes:
  "getValidLevel (JNum OFF) = LNum OFF \<and> getValidLevel (JNum ERROR) = LNum ERROR \<and>
   getValidLevel (JNum WARN) = LNum WARN \<and> getValidLevel (JNum INFO) = LNum INFO \<and>
   getValidLevel (JNum DEBUG) = LNum DEBUG \<and> getValidLevel (JNum TRACE) = LNum TRACE"
  by (simp add: Level_defs Level_name_def)

lemma getValidLevel_unknown_name: "s \<notin> set Level_names \<Longrightarrow> getValidLevel (JStr s) = LNull"
  by (simp add: Level_value_def Level_names_def)

lemma getValidLevel_numeric_string: "\<not> isNaN_plus s \<Longrightarrow> getValidLevel (JStr s) = LNull"
  by simp

lemma getValidLevel_out_of_range: "n < OFF \<or> TRACE < n \<Longrightarrow> getValidLevel (JNum n) = LNull"
  by (auto simp: Level_name_def Level_defs)

text \<open>
  Claim C5. \<open>getValidLevel\<close> maps each of the six level names and each of the six numeric
  codes to the numeric code, so that the name and the code of a level normalize to the
  same value, the code itself. It returns null, which is no level, for a string that is
  no level name, for a numeric string, for a number outside the codes, for null and for
  undefined. Being a total function with no exception in its body, it never throws.
\<close>

theorem getValidLevel_round_trip:
  "(getValidLevel (JStr ''OFF'') = LNum OFF \<and> getValidLevel (JNum OFF) = LNum OFF) \<and>
   (getValidLevel (JStr ''ERROR'') = LNum ERROR \<and> getValidLevel (JNum ERROR) = LNum ERROR) \<and>
   (getValidLevel (JStr ''WARN'') = LNum WARN \<and> getValidLevel (JNum WARN) = LNum WARN) \<and>
   (getValidLevel (JStr ''INFO'') = LNum INFO \<and> getValidLevel (JNum INFO) = LNum INFO) \<and>
   (getValidLevel (JStr ''DEBUG'') = LNum DEBUG \<and> getValidLevel (JNum DEBUG) = LNum DEBUG) \<and>
   (getValidLevel (JStr ''TRACE'') = LNum TRACE \<and> getValidLevel (JNum TRACE) = LNum TRACE) \<and>
   (s \<notin> set Level_names \<longrightarrow> getValidLevel (JStr s) = LNull) \<and>
   (n < OFF \<or> TRACE < n \<longrightarrow> getValidLevel (JNum n) = LNull) \<and>
   (\<not> isNaN_plus t \<longrightarrow> getValidLevel (JStr t) = LNull) \<and>
   getValidLevel JNull = LNull \<and> getValidLevel JUndefined = LNull"
  using getValidLevel_names getValidLevel_codes getValidLevel_unknown_name [of s]
    getValidLevel_out_of_range [of n] getValidLevel_numeric_string [of t]
  by simp

theorem getValidLevel_round_trip_witness:
  "''bogus'' \<notin> set Level_names \<and> getValidLevel (JStr ''bogus'') = LNull \<and>
   TRACE < 100 \<and> getValidLevel (JNum 100) = LNull \<and>
   \<not> isNaN_plus ''100'' \<and> getValidLevel (JStr ''100'') = LNull"
proof -
  have a: "''bogus'' \<notin> set Level_names" by code_simp
  have b: "TRACE < 100" by (simp add: TRACE_def)
  have c: "\<not> isNaN_plus ''100''" by code_simp
  show ?thesis
    using a b c getValidLevel_round_trip [of "''bogus''" 100 "''100''"] by simp
qed

section \<open>The effective level\<close>

lemma effectiveLevel_set_level:
  "effectiveLevel (set_level v l) = (if truthy v then v else rootLevel l)"
  by (simp add: set_level_def calculateEffectiveLevel_def js_or_def)

lemma effectiveLevel_set_rootLevel:
  "effectiveLevel (set_rootLevel r l) = (if truthy (level l) then level l else r)"
  by (simp add: set_rootLevel_def calculateEffectiveLevel_def js_or_def)

lemma effectiveLevel_new_Logger:
  "effectiveLevel (new_Logger n r v as) = (if truthy v then v else r)"
  by (simp add: new_Logger_def set_level_def set_rootLevel_def calculateEffectiveLevel_def
      js_or_def)

text \<open>
  Claim C1 says that a local level, OFF included, always wins over the root level. The
  code computes \<open>this.level || this.rootLevel\<close>, and \<open>Level.OFF\<close> is \<open>0\<close>, which is falsy:
  a logger whose local level is set to OFF under the root level INFO has the effective
  level INFO, and its \<open>error\<close> still reaches the appender. (For the five levels from
  ERROR to TRACE the local level does win, see \<open>effectiveLevel_set_level\<close>; and OFF as
  the root level of a logger without a local level does switch the logger off.)
\<close>

theorem local_level_OFF_is_ignored:
  "effectiveLevel (set_level (LNum OFF) (new_Logger ''testLogger'' (LNum INFO) LNull [7])) =
     LNum INFO \<and>
   error (set_level (LNum OFF) (new_Logger ''testLogger'' (LNum INFO) LNull [7]))
     (JStr ''m'') [] = [(7, ''error'', [JStr ''[ERROR] - testLogger: m''])] \<and>
   error (set_rootLevel (LNum OFF) (new_Logger ''testLogger'' (LNum INFO) LNull [7]))
     (JStr ''m'') [] = []"
  by (simp add: new_Logger_def set_level_def set_rootLevel_def calculateEffectiveLevel_def
      js_or_def Level_defs error_def log_def shouldLog_def js_le_def formatLogMessage_def
      Level_name_def Level_names_def)

section \<open>Dispatch to the appenders\<close>

lemma shouldLog_num: "effectiveLevel l = LNum e \<Longrightarrow> shouldLog l (LNum r) = (r \<le> e)"
  by (simp add: shouldLog_def js_le_def)

lemma log_formatted:
  "log l (LNum r) fn msg (Some ps) True =
     (if shouldLog l (LNum r)
      then map (\<lambda>a. (a, fn, JStr (''['' @ Level_of (LNum r) @ ''] - '' @ name l @ '': '' @
                                   js_to_string msg) # ps)) (appenders l)
      else [])"
  by (simp add: log_def formatLogMessage_def)

text \<open>
  Claim C2. Each of the five severity methods, when its level passes
  (\<open>requiredLevel <= effectiveLevel\<close>), calls the method of its own name on every
  appender of the logger, once per position of the appender list and in the order of the
  list, with the string \<open>[LEVELNAME] - <loggerName>: <message>\<close> as first argument followed
  by the optional arguments as they were given; when the level does not pass, it calls
  nothing. With a numeric effective level \<open>e\<close>, the level \<open>r\<close> passes exactly when
  \<open>r \<le> e\<close>.
\<close>

theorem severity_methods_fan_out:
  "error l msg ps =
     (if shouldLog l (LNum ERROR)
      then map (\<lambda>a. (a, ''error'', JStr (''[ERROR] - '' @ name l @ '': '' @ js_to_string msg) # ps))
             (appenders l) else []) \<and>
   warn l msg ps =
     (if shouldLog l (LNum WARN)
      then map (\<lambda>a. (a, ''warn'', JStr (''[WARN] - '' @ name l @ '': '' @ js_to_string msg) # ps))
             (appenders l) else []) \<and>
   info l msg ps =
     (if shouldLog l (LNum INFO)
      then map (\<lambda>a. (a, ''info'', JStr (''[INFO] - '' @ name l @ '': '' @ js_to_string msg) # ps))
             (appenders l) else []) \<and>
   debug l msg ps =
     (if shouldLog l (LNum DEBUG)
      then map (\<lambda>a. (a, ''debug'', JStr (''[DEBUG] - '' @ name l @ '': '' @ js_to_string msg) # ps))
             (appenders l) else []) \<and>
   trace l msg ps =
     (if shouldLog l (LNum TRACE)
      then map (\<lambda>a. (a, ''trace'', JStr (''[TRACE] - '' @ name l @ '': '' @ js_to_string msg) # ps))
             (appenders l) else []) \<and>
   (effectiveLevel l = LNum e \<longrightarrow> shouldLog l (LNum r) = (r \<le> e))"
  by (simp add: error_def warn_def info_def debug_def trace_def log_formatted shouldLog_num
      Level_defs Level_name_def Level_names_def)

theorem severity_methods_fan_out_witness:
  "effectiveLevel (new_Logger ''testLogger'' (LNum INFO) (LNum DEBUG) [1, 2]) = LNum DEBUG \<and>
   debug (new_Logger ''testLogger'' (LNum INFO) (LNum DEBUG) [1, 2]) (JStr ''Bogus'')
       [JObj 8, JObj 9] =
     [(1, ''debug'', [JStr ''[DEBUG] - testLogger: Bogus'', JObj 8, JObj 9]),
      (2, ''debug'', [JStr ''[DEBUG] - testLogger: Bogus'', JObj 8, JObj 9])] \<and>
   trace (new_Logger ''testLogger'' (LNum INFO) (LNum DEBUG) [1, 2]) (JStr ''Bogus'')
       [JObj 8, JObj 9] = []"
proof -
  have e: "effectiveLevel (new_Logger ''testLogger'' (LNum INFO) (LNum DEBUG) [1, 2]) = LNum DEBUG"
    by (simp add: effectiveLevel_new_Logger DEBUG_def)
  have n: "name (new_Logger ''testLogger'' (LNum INFO) (LNum DEBUG) [1, 2]) = ''testLogger''"
    "appenders (new_Logger ''testLogger'' (LNum INFO) (LNum DEBUG) [1, 2]) = [1, 2]"
    by (simp_all add: new_Logger_def set_level_def set_rootLevel_def calculateEffectiveLevel_def)
  show ?thesis
    using e n
      severity_methods_fan_out [of "new_Logger ''testLogger'' (LNum INFO) (LNum DEBUG) [1, 2]"
        "JStr ''Bogus''" "[JObj 8, JObj 9]" DEBUG DEBUG]
      severity_methods_fan_out [of "new_Logger ''testLogger'' (LNum INFO) (LNum DEBUG) [1, 2]"
        "JStr ''Bogus''" "[JObj 8, JObj 9]" DEBUG TRACE]
    by (simp add: Level_defs)
qed

section \<open>Selecting loggers in \<open>setLogLevel\<close>\<close>














section \<open>The rotating log\<close>

lemma newest_newest_append: "newest (newest xs @ ys) = newest (xs @ ys)"
proof (cases "length xs \<le> LOG_ENTRY_COUNT")
  case True
  then show ?thesis by (simp add: newest_def)
next
  case False
  then have "length xs + length ys - (length xs - LOG_ENTRY_COUNT + LOG_ENTRY_COUNT) +
      (length xs - LOG_ENTRY_COUNT) = length xs + length ys - LOG_ENTRY_COUNT"
    by arith
  with False show ?thesis by (simp add: newest_def)
qed

lemma rotate_push:
  "length es \<le> LOG_ENTRY_COUNT \<Longrightarrow>
   (if length es \<ge> LOG_ENTRY_COUNT then tl es else es) @ [e] = newest (es @ [e])"
  by (cases es) (auto simp: newest_def LOG_ENTRY_COUNT_def)

lemma length_newest: "length (newest xs) = min (length xs) LOG_ENTRY_COUNT"
  by (auto simp: newest_def)

lemma ls_invoke_filled:
  assumes "localStorage a = Some st" "logCache a = Some (Arr es)"
    "length es \<le> LOG_ENTRY_COUNT"
  shows "ls_invoke a c =
     Inr (a\<lparr>logCache := Some (Arr (newest (es @ [entry_of c]))),
            localStorage := Some (Blob (Arr (map (map jsonify) (newest (es @ [entry_of c])))))\<rparr>)"
proof -
  obtain now k where c: "c = (now, k)" by (cases c)
  have "ls_invoke a c =
     Inr (a\<lparr>logCache := Some (Arr ((if length es \<ge> LOG_ENTRY_COUNT then tl es else es) @
                 [entry_of c])),
            localStorage := Some (Blob (Arr (map (map jsonify)
               ((if length es \<ge> LOG_ENTRY_COUNT then tl es else es) @ [entry_of c]))))\<rparr>)"
    using assms(1,2) unfolding c
    by (cases k) (simp_all add: logAndRotate_def json_truthy_def Let_def)
  then show ?thesis unfolding rotate_push [OF assms(3)] .
qed

lemma ls_invoke_fresh:
  "ls_invoke \<lparr>localStorage = Some NoBlob, logCache = None\<rparr> c =
     Inr \<lparr>localStorage = Some (Blob (Arr [map jsonify (entry_of c)])),
          logCache = Some (Arr [entry_of c])\<rparr>"
proof -
  obtain now k where c: "c = (now, k)" by (cases c)
  show ?thesis unfolding c
    by (cases k) (simp_all add: logAndRotate_def json_truthy_def parse_log_def LOG_ENTRY_COUNT_def)
qed

lemma ls_run_filled:
  "length es \<le> LOG_ENTRY_COUNT \<Longrightarrow> cs \<noteq> [] \<Longrightarrow>
   ls_run \<lparr>localStorage = Some st, logCache = Some (Arr es)\<rparr> cs =
     Inr \<lparr>localStorage = Some (Blob (Arr (map (map jsonify) (newest (es @ map entry_of cs))))),
          logCache = Some (Arr (newest (es @ map entry_of cs)))\<rparr>"
proof (induction cs arbitrary: es st)
  case Nil
  then show ?case by simp
next
  case (Cons c cs)
  let ?es = "newest (es @ [entry_of c])"
  have step: "ls_invoke \<lparr>localStorage = Some st, logCache = Some (Arr es)\<rparr> c =
      Inr \<lparr>localStorage = Some (Blob (Arr (map (map jsonify) ?es))), logCache = Some (Arr ?es)\<rparr>"
    using Cons.prems(1) by (simp add: ls_invoke_filled [where st = st and es = es])
  show ?case
  proof (cases "cs = []")
    case True
    then show ?thesis using step by simp
  next
    case False
    have "length ?es \<le> LOG_ENTRY_COUNT" by (simp add: length_newest)
    from Cons.IH [OF this False, of "Blob (Arr (map (map jsonify) ?es))"]
    show ?thesis
      using step newest_newest_append [of "es @ [entry_of c]" "map entry_of cs"] by simp
  qed
qed

lemma ls_run_fresh:
  assumes "cs \<noteq> []"
  shows "ls_run \<lparr>localStorage = Some NoBlob, logCache = None\<rparr> cs =
     Inr \<lparr>localStorage = Some (Blob (Arr (map (map jsonify) (newest (map entry_of cs))))),
          logCache = Some (Arr (newest (map entry_of cs)))\<rparr>"
proof (cases cs)
  case Nil
  then show ?thesis using assms by simp
next
  case (Cons c cs')
  show ?thesis
  proof (cases "cs' = []")
    case True
    then show ?thesis using Cons by (simp add: ls_invoke_fresh newest_def LOG_ENTRY_COUNT_def)
  next
    case False
    have "length [entry_of c] \<le> LOG_ENTRY_COUNT" by (simp add: LOG_ENTRY_COUNT_def)
    from ls_run_filled [OF this False]
    show ?thesis using Cons by (simp add: ls_invoke_fresh)
  qed
qed

text \<open>
  Claim C8. Starting from an empty storage and an appender that has not logged yet, after
  \<open>n > 0\<close> logging calls (\<open>error\<close>, \<open>warn\<close>, \<open>info\<close>, \<open>debug\<close>, \<open>trace\<close>, \<open>dir\<close>,
  \<open>dirxml\<close>) the cache, and the array written to the storage, hold the entries of the
  most recent \<open>min n 200\<close> calls, oldest first: the entries of all calls without the first
  \<open>n - 200\<close>. So the length never exceeds the capacity 200, and after 350 calls the first
  entry kept is that of call number 151. No call throws.
\<close>

theorem rotating_log_keeps_newest:
  assumes "cs \<noteq> []"
  shows "ls_run \<lparr>localStorage = Some NoBlob, logCache = None\<rparr> cs =
       Inr \<lparr>localStorage = Some (Blob (Arr (map (map jsonify)
                (drop (length cs - 200) (map entry_of cs))))),
            logCache = Some (Arr (drop (length cs - 200) (map entry_of cs)))\<rparr> \<and>
     length (drop (length cs - 200) (map entry_of cs)) = min (length cs) 200 \<and>
     LOG_ENTRY_COUNT = 200 \<and>
     (length cs = 350 \<longrightarrow>
        hd (drop (length cs - 200) (map entry_of cs)) = entry_of (cs ! 150) \<and>
        length (drop (length cs - 200) (map entry_of cs)) = 200)"
  using ls_run_fresh [OF assms]
  by (auto simp: newest_def LOG_ENTRY_COUNT_def hd_drop_conv_nth)

theorem rotating_log_keeps_newest_witness:
  "map (\<lambda>i. (''t'', Call_info (JNum (int i)) [])) [1..<351] \<noteq> [] \<and>
   length (map (\<lambda>i. (''t'', Call_info (JNum (int i)) [])) [1..<351]) = 350 \<and>
   ls_run \<lparr>localStorage = Some NoBlob, logCache = None\<rparr>
       (map (\<lambda>i. (''t'', Call_info (JNum (int i)) [])) [1..<351]) =
     Inr \<lparr>localStorage = Some (Blob (Arr
            (map (\<lambda>i. [JStr (''t '' @ show_int (int i))]) [151..<351]))),
          logCache = Some (Arr (map (\<lambda>i. [JStr (''t '' @ show_int (int i))]) [151..<351]))\<rparr> \<and>
   hd (map (\<lambda>i. [JStr (''t '' @ show_int (int i))]) [151..<351]) = [JStr ''t 151'']"
proof -
  let ?cs = "map (\<lambda>i. (''t'', Call_info (JNum (int i)) [])) [1..<351]"
  let ?kept = "map (\<lambda>i. [JStr (''t '' @ show_int (int i))]) [151..<351]"
  have ne: "?cs \<noteq> []" by simp
  have len: "length ?cs = 350" by simp
  have kept: "drop (length ?cs - 200) (map entry_of ?cs) = ?kept"
    by (simp add: drop_map comp_def del: upt_rec_numeral)
  have js: "map (map jsonify) ?kept = ?kept"
    by (simp add: comp_def del: upt_rec_numeral)
  have first: "hd ?kept = [JStr ''t 151'']"
    by (simp add: hd_map upt_conv_Cons show_int_def show_nat.simps digit_char_def
        del: upt_rec_numeral)
  from rotating_log_keeps_newest [OF ne]
  have "ls_run \<lparr>localStorage = Some NoBlob, logCache = None\<rparr> ?cs =
       Inr \<lparr>localStorage = Some (Blob (Arr (map (map jsonify)
                (drop (length ?cs - 200) (map entry_of ?cs))))),
            logCache = Some (Arr (drop (length ?cs - 200) (map entry_of ?cs)))\<rparr>"
    by (rule conjunct1)
  then have run: "ls_run \<lparr>localStorage = Some NoBlob, logCache = None\<rparr> ?cs =
       Inr \<lparr>localStorage = Some (Blob (Arr ?kept)), logCache = Some (Arr ?kept)\<rparr>"
    unfolding kept js .
  from ne len run first show ?thesis by (intro conjI)
qed

section \<open>Reading the log back\<close>

text \<open>
  Claim C9 says that \<open>getLastLog\<close> returns an empty sequence whenever the stored value is
  absent. With nothing stored \<open>getItem\<close> gives null, \<open>JSON.parse(null)\<close> is null, and
  \<open>getLastLog\<close> returns null, not an empty array (the factory's \<open>lastLog\<close> tests this
  value for truthiness and answers that no log entry exists).
\<close>

theorem getLastLog_absent_is_null:
  "getLastLog \<lparr>localStorage = Some NoBlob, logCache = None\<rparr> = Inr (Other JNull) \<and>
   getLastLog \<lparr>localStorage = Some NoBlob, logCache = None\<rparr> \<noteq> Inr (Arr [])"
  by (simp add: getLastLog_def parse_log_def)

text \<open>
  Claim C9, amended. \<open>getLastLog\<close> never throws and never looks at the cache: it parses
  what the storage holds at the time of the call and returns the parsed value, which is
  null when nothing is stored; it returns an empty array when the text does not parse (or
  the appender has no storage).
\<close>

theorem getLastLog_reads_storage:
  "getLastLog a =
     Inr (case localStorage a of
            None \<Rightarrow> Arr []
          | Some NoBlob \<Rightarrow> Other JNull
          | Some BadBlob \<Rightarrow> Arr []
          | Some (Blob j) \<Rightarrow> j) \<and>
   getLastLog (a\<lparr>logCache := c\<rparr>) = getLastLog a"
  by (simp add: getLastLog_def parse_log_def split: option.splits blob.splits)

section \<open>Reconfiguration and the cached loggers\<close>

text \<open>
  The factory after \<open>init\<close> with the console appender \<open>7\<close>, an empty storage and an empty
  configuration, and after a first \<open>getLogger\<close>.
\<close>

lemma init_empty_storage:
  "init new_LoggerFactory 7 (Some None)
     \<lparr>cfg_rootLevel = LUndefined, cfg_levels = None, cfg_appenders = None\<rparr> =
   Inr \<lparr>storedLevels = [(''__root'', LNum 3)], cachedLoggers = [], theRootLevel = LNum 3,
        factoryAppenders = Some [(''console'', 7)], storage = Some None,
        registeredAppenders = (\<lambda>k. None)(''console'' \<mapsto> Instance 7)\<rparr>"
  by (simp add: init_def new_LoggerFactory_def initLevels_def DEFAULT_ROOT_LEVEL_def INFO_def
      Level_name_def registerAppender_def setLogAppenders_def resolve_appenders_def
      getValidAppender_def obj_set_def key_before_def array_index_def is_digit_def
      storeConfig_def restoreConfig_def Let_def obj_values_def)

lemma getLogger_after_init:
  "getLogger \<lparr>storedLevels = [(''__root'', LNum 3)], cachedLoggers = [], theRootLevel = LNum 3,
        factoryAppenders = Some [(''console'', 7)], storage = Some None,
        registeredAppenders = (\<lambda>k. None)(''console'' \<mapsto> Instance 7)\<rparr> (JStr ''testLogger'') =
   (\<lparr>name = ''testLogger'', rootLevel = LNum 3, level = LNull, effectiveLevel = LNum 3,
     appenders = [7]\<rparr>,
    \<lparr>storedLevels = [(''__root'', LNum 3)],
     cachedLoggers = [(''testLogger'',
        \<lparr>name = ''testLogger'', rootLevel = LNum 3, level = LNull, effectiveLevel = LNum 3,
         appenders = [7]\<rparr>)],
     theRootLevel = LNum 3,
     factoryAppenders = Some [(''console'', 7)], storage = Some None,
     registeredAppenders = (\<lambda>k. None)(''console'' \<mapsto> Instance 7)\<rparr>)"
  by (simp add: getLogger_def Let_def obj_get_def get_property_def Object_prototype_members_def
      obj_values_def new_Logger_def set_level_def set_rootLevel_def calculateEffectiveLevel_def
      js_or_def)

lemma clear_after_getLogger:
  "clear \<lparr>storedLevels = [(''__root'', LNum 3)],
     cachedLoggers = [(''testLogger'',
        \<lparr>name = ''testLogger'', rootLevel = LNum 3, level = LNull, effectiveLevel = LNum 3,
         appenders = [7]\<rparr>)],
     theRootLevel = LNum 3,
     factoryAppenders = Some [(''console'', 7)], storage = Some None,
     registeredAppenders = (\<lambda>k. None)(''console'' \<mapsto> Instance 7)\<rparr> =
   Inr (''Cleared log levels and appenders. New root level is '' @ [CHR 0x27] @ ''INFO'' @
        [CHR 0x27] @ ''.'',
     \<lparr>storedLevels = [(''__root'', LNum 3)],
      cachedLoggers = [(''testLogger'',
        \<lparr>name = ''testLogger'', rootLevel = LNum 3, level = LNull, effectiveLevel = LNum 3,
         appenders = [7]\<rparr>)],
      theRootLevel = LNum 3,
      factoryAppenders = Some [],
      storage = Some (Some (Parsed
        \<lparr>cfg_rootLevel = LUndefined, cfg_levels = Some [(''__root'', JStr ''INFO'')],
         cfg_appenders = Some [''console'']\<rparr>)),
      registeredAppenders = (\<lambda>k. None)(''console'' \<mapsto> Instance 7)\<rparr>)"
  by (simp add: clear_def initLevels_def DEFAULT_ROOT_LEVEL_def INFO_def Level_name_def
      Level_names_def Let_def set_level_def set_rootLevel_def calculateEffectiveLevel_def
      js_or_def storeConfig_def config_record_def stringify_levels_def List.map_filter_def
      obj_keys_def)

text \<open>What \<open>clear\<close> does, for any factory on which it returns.\<close>

lemma clear_resets:
  assumes "clear f = Inr (msg, f')"
  shows "storedLevels f' = [(''__root'', LNum DEFAULT_ROOT_LEVEL)]"
    and "theRootLevel f' = LNum DEFAULT_ROOT_LEVEL"
    and "factoryAppenders f' = Some []"
    and "cachedLoggers f' = map (\<lambda>(nm, l). (nm,
           l\<lparr>level := LNull, rootLevel := LNum DEFAULT_ROOT_LEVEL,
             effectiveLevel := LNum DEFAULT_ROOT_LEVEL\<rparr>)) (cachedLoggers f)"
    and "storage f = Some st \<Longrightarrow> factoryAppenders f = Some as \<Longrightarrow>
         storage f' = Some (Some (Parsed
           (config_record [(''__root'', LNum DEFAULT_ROOT_LEVEL)] as)))"
  using assms
  by (auto simp: clear_def initLevels_def Let_def storeConfig_def DEFAULT_ROOT_LEVEL_def
      INFO_def Level_name_def set_level_def set_rootLevel_def calculateEffectiveLevel_def
      js_or_def split: option.splits)

text \<open>A cached logger is returned as it is, and the factory is not changed.\<close>

lemma getLogger_cached:
  "map_of (cachedLoggers f) nm = Some l \<Longrightarrow> nm \<noteq> [] \<Longrightarrow> getLogger f (JStr nm) = (l, f)"
  by (simp add: getLogger_def)

text \<open>
  The cached loggers are current when each has the factory's root level and the values
  of the factory's appenders.
\<close>

lemma refresh_all_current: "loggers_current (g\<lparr>cachedLoggers := map (refresh g) ls\<rparr>)"
  by (auto simp: loggers_current_def list_all_iff refresh_def set_level_def set_rootLevel_def
      calculateEffectiveLevel_def)

lemma restoreConfig_current: "loggers_current (restoreConfig f)"
  unfolding restoreConfig_def Let_def by (rule refresh_all_current)

lemma setLogAppenders_current:
  assumes "loggers_current f" "setLogAppenders f ks = Inr (msg, f')"
  shows "loggers_current f'"
  using assms
  by (fastforce simp: loggers_current_def setLogAppenders_def storeConfig_def list_all_iff
      split: option.splits)

lemma set_factory_level_current:
  assumes "loggers_current f" "set_factory_level f lv = Inr f'"
  shows "loggers_current f'"
  using assms
  by (fastforce simp: loggers_current_def set_factory_level_def storeConfig_def list_all_iff
      Let_def set_rootLevel_def calculateEffectiveLevel_def split: option.splits if_splits)

lemma sweep_current:
  "sweep hit lv i ls sl = (ls', sl', ms) \<Longrightarrow>
   list_all (\<lambda>(nm, l). rootLevel l = r \<and> appenders l = as) ls \<Longrightarrow>
   list_all (\<lambda>(nm, l). rootLevel l = r \<and> appenders l = as) ls'"
proof (induction ls arbitrary: i sl ls' sl' ms)
  case Nil
  then show ?case by simp
next
  case (Cons x ls)
  obtain nm l where x: "x = (nm, l)" by (cases x)
  show ?case
  proof (cases "hit i nm")
    case True
    obtain a b c where r: "sweep hit lv (Suc i) ls (obj_set nm lv sl) = (a, b, c)"
      by (cases "sweep hit lv (Suc i) ls (obj_set nm lv sl)") auto
    with Cons.IH [OF r] Cons.prems True x show ?thesis
      by (auto simp: set_level_def calculateEffectiveLevel_def)
  next
    case False
    obtain a b c where r: "sweep hit lv (Suc i) ls sl = (a, b, c)"
      by (cases "sweep hit lv (Suc i) ls sl") auto
    with Cons.IH [OF r] Cons.prems False x show ?thesis by auto
  qed
qed

lemma setLogLevel_current:
  assumes "loggers_current f" "setLogLevel f arg lv = Inr (msg, f')"
  shows "loggers_current f'"
proof -
  have run: "loggers_current g"
    if "setLogLevel_run f nameMode a hit theLevel = Inr (msg, g)" for nameMode a hit theLevel g
  proof -
    obtain ls sl ms where sw: "sweep hit theLevel 0 (cachedLoggers f) (storedLevels f) = (ls, sl, ms)"
      by (cases "sweep hit theLevel 0 (cachedLoggers f) (storedLevels f)") auto
    from sweep_current [OF sw] assms(1)
    have "list_all (\<lambda>(nm, l). rootLevel l = theRootLevel f \<and>
        appenders l = (case factoryAppenders f of None \<Rightarrow> [] | Some as \<Rightarrow> obj_values as)) ls"
      by (simp add: loggers_current_def)
    with that sw show ?thesis
      by (auto simp: setLogLevel_run_def loggers_current_def storeConfig_def
          split: option.splits sum.splits)
  qed
  from assms show ?thesis
    by (auto simp: setLogLevel_def Let_def
        split: if_splits jsval.splits sum.splits js_error.splits option.splits dest: run)
qed

text \<open>
  Claim C4 says that after every reconfiguration call each cached logger has the
  factory's root level and the values of the factory's appenders. \<open>restoreConfig\<close>
  establishes this, and \<open>setLogLevel\<close>, \<open>setLogAppenders\<close> and the assignment of the root
  level keep it (the lemmas above). \<open>clear\<close> does not: it resets the factory's appenders
  to the empty object but, unlike \<open>setLogAppenders\<close> and \<open>restoreConfig\<close>, does not give
  the loggers the new values. After \<open>init\<close>, \<open>getLogger('testLogger')\<close> and \<open>clear()\<close> the
  factory has no appenders and the logger still has the console appender.
\<close>

theorem clear_leaves_loggers_their_appenders:
  "(case init new_LoggerFactory 7 (Some None)
           \<lparr>cfg_rootLevel = LUndefined, cfg_levels = None, cfg_appenders = None\<rparr> of
      Inl e \<Rightarrow> False
    | Inr f \<Rightarrow>
        (case clear (snd (getLogger f (JStr ''testLogger''))) of
           Inl e \<Rightarrow> False
         | Inr (msg, f') \<Rightarrow>
             factoryAppenders f' = Some [] \<and>
             map (\<lambda>(nm, l). (nm, appenders l)) (cachedLoggers f') = [(''testLogger'', [7])] \<and>
             \<not> loggers_current f'))"
  by (simp add: init_empty_storage getLogger_after_init clear_after_getLogger
      loggers_current_def obj_values_def)

section \<open>What \<open>clear\<close> persists\<close>

text \<open>
  Claim C6 says that \<open>clear\<close> persists the state after its mutations, so that the
  appenders list of the persisted record is empty. \<open>clear\<close> calls \<open>storeConfig\<close> before
  it empties the appenders: the record holds the keys of the appenders that were active
  before the call, here \<open>console\<close>, while the message says that the appenders were
  cleared. The rest of the claim holds (\<open>clear_resets\<close>, \<open>getLogger_cached\<close>).
\<close>

theorem clear_persists_the_old_appenders:
  "(case init new_LoggerFactory 7 (Some None)
           \<lparr>cfg_rootLevel = LUndefined, cfg_levels = None, cfg_appenders = None\<rparr> of
      Inl e \<Rightarrow> False
    | Inr f \<Rightarrow>
        (case clear (snd (getLogger f (JStr ''testLogger''))) of
           Inl e \<Rightarrow> False
         | Inr (msg, f') \<Rightarrow>
             msg = ''Cleared log levels and appenders. New root level is '' @ [CHR 0x27] @
                   ''INFO'' @ [CHR 0x27] @ ''.'' \<and>
             storedLevels f' = [(''__root'', LNum INFO)] \<and>
             factoryAppenders f' = Some [] \<and>
             storage f' = Some (Some (Parsed
               \<lparr>cfg_rootLevel = LUndefined, cfg_levels = Some [(''__root'', JStr ''INFO'')],
                cfg_appenders = Some [''console'']\<rparr>))))"
  by (simp add: init_empty_storage getLogger_after_init clear_after_getLogger INFO_def)

section \<open>Restoring the configuration\<close>



















text \<open>
  \<open>init\<close> called a second time with the storage of the first call: \<open>setLogAppenders\<close> has
  written the record of the present state when \<open>restoreConfig\<close> reads the storage, so that
  record is adopted, and the root level of the configuration passed is not kept.
\<close>

lemma init_again_restores_its_own_record:
  "(case init new_LoggerFactory 7 (Some None)
          \<lparr>cfg_rootLevel = LUndefined, cfg_levels = None, cfg_appenders = None\<rparr> of
      Inl e \<Rightarrow> False
    | Inr f \<Rightarrow>
        (case init_again f 7
                \<lparr>cfg_rootLevel = LNum DEBUG, cfg_levels = None, cfg_appenders = None\<rparr> of
           Inl e \<Rightarrow> False
         | Inr g \<Rightarrow>
             theRootLevel g = LNum INFO \<and> factoryAppenders g = Some [(''console'', 7)] \<and>
             storage g = Some (Some (Parsed \<lparr>cfg_rootLevel = LUndefined,
                cfg_levels = Some [(''__root'', JStr ''INFO'')],
                cfg_appenders = Some [''console'']\<rparr>)) \<and>
             in_step g))"
  by (simp add: init_def init_again_def in_step_def config_record_def stringify_levels_def
      List.map_filter_def new_LoggerFactory_def initLevels_def DEFAULT_ROOT_LEVEL_def Level_defs
      Level_name_def registerAppender_def setLogAppenders_def resolve_appenders_def
      getValidAppender_def obj_set_def key_before_def array_index_def is_digit_def
      storeConfig_def restoreConfig_def Let_def obj_values_def restore_levels_def obj_keys_def
      obj_get_def isNaN_plus_def js_trim_def js_whitespace_def str_numeric_literal_def
      non_decimal_integer_def unsigned_decimal_def Level_value_def Level_names_def
      restore_rootLevel_def)









section \<open>Wildcards in string selectors\<close>

















end
